theory Spec2Isabelle
  imports Complex_Main
begin

section \<open>The Thermo-Calc experimental datafile reader (\<open>exp_datafile.py\<close>)\<close>

text \<open>
  The development embeds \<open>load_exp_datafile\<close> of \<open>exp_datafile.py\<close>: a single pass over
  the lines of a text file that collects blocks of coordinates, two axis labels and two
  axis limit lists.

  \<^item> The input is the list of lines that iterating over the opened file yields; opening
    the file is outside the model.
  \<^item> A Python string is a \<open>string\<close>; a \<open>char\<close> stands for a code point below 256.
  \<^item> The built-in \<open>float\<close> is a parameter \<open>flt\<close> of every function: \<open>flt s = None\<close> stands
    for \<open>float(s)\<close> raising \<open>ValueError\<close>, and \<open>'f\<close> is the type of float values. The
    theorems with a free \<open>flt\<close> hold for every such function.
  \<^item> An entry of a block is a float or \<open>None\<close>: an \<open>'f option\<close>.
  \<^item> The local variables \<open>xblock\<close> and \<open>yblock\<close> are not bound before the first \<open>BLOCK\<close>
    line. An unbound variable is \<open>None\<close> in the fields \<open>xblock\<close> and \<open>yblock\<close> of the
    state, and reading it is the error \<open>UnboundLocalError\<close>.
  \<^item> The lists are held by value. After \<open>x.append(xblock)\<close> the list \<open>xblock\<close> is shared
    with \<open>x\<close>, but the only writes to \<open>xblock\<close> are guarded by \<open>blockin\<close>, which that same
    branch clears and only a \<open>BLOCK\<close> line sets, after it has bound \<open>xblock\<close> to a new
    list. No list that \<open>x\<close> or \<open>y\<close> holds is written again.
\<close>

subsection \<open>Errors and results\<close>

datatype py_error = UnboundLocalError | ValueError

definition bind_res :: "py_error + 'a \<Rightarrow> ('a \<Rightarrow> py_error + 'b) \<Rightarrow> py_error + 'b" where
  "bind_res m f = (case m of Inl e \<Rightarrow> Inl e | Inr v \<Rightarrow> f v)"

text \<open>
  The first two components of the returned tuple: a list of blocks when \<open>blocks\<close> is
  true, one flat list otherwise.
\<close>

datatype 'f coords = Blocks "'f option list list" | Flat "'f option list"

type_synonym 'f load_result =
  "'f coords \<times> 'f coords \<times> string \<times> string \<times> 'f list \<times> 'f list"

subsection \<open>String operations of the Python library\<close>

text \<open>\<open>str.strip(chars)\<close>: drops the characters of \<open>chars\<close> from both ends.\<close>

definition strip :: "string \<Rightarrow> string \<Rightarrow> string" where
  "strip chars s =
     rev (dropWhile (\<lambda>c. c \<in> set chars) (rev (dropWhile (\<lambda>c. c \<in> set chars) s)))"

text \<open>
  The characters below 256 that \<open>str.split()\<close> treats as white space: code points 9 to
  13, 28 to 32, 133 and 160.
\<close>

definition is_space :: "char \<Rightarrow> bool" where
  "is_space c =
     (let n = of_char c :: nat
      in (9 \<le> n \<and> n \<le> 13) \<or> (28 \<le> n \<and> n \<le> 32) \<or> n = 133 \<or> n = 160)"

text \<open>
  \<open>str.split()\<close> without arguments: the maximal runs of characters that are not white
  space. \<open>cur\<close> is the token being read.
\<close>

fun split_acc :: "string \<Rightarrow> string \<Rightarrow> string list" where
  "split_acc cur [] = (if cur = [] then [] else [cur])"
| "split_acc cur (c # cs) =
     (if is_space c
      then (if cur = [] then split_acc [] cs else cur # split_acc [] cs)
      else split_acc (cur @ [c]) cs)"

definition py_split :: "string \<Rightarrow> string list" where
  "py_split s = split_acc [] s"

text \<open>\<open>' '.join(ws)\<close>.\<close>

fun str_join :: "string list \<Rightarrow> string" where
  "str_join [] = []"
| "str_join [w] = w"
| "str_join (w # v # ws) = w @ '' '' @ str_join (v # ws)"

text \<open>Lines 38 and 39: \<open>line.strip(' \t\n').split()\<close>.\<close>

definition tokens :: "string \<Rightarrow> string list" where
  "tokens line = py_split (strip [CHR '' '', CHR 0x09, CHR 0x0A] line)"

subsection \<open>The state of the loop\<close>

text \<open>
  The fields \<open>x_acc\<close> and \<open>y_acc\<close> are the local variables \<open>x\<close> and \<open>y\<close> of the source
  (the sealed blocks); the other fields carry the names of the source.
\<close>

record 'f pstate =
  blockin :: bool
  clip :: bool
  x_acc :: "'f option list list"
  y_acc :: "'f option list list"
  xblock :: "'f option list option"
  yblock :: "'f option list option"
  xlab :: string
  ylab :: string
  xlim :: "'f list"
  ylim :: "'f list"

text \<open>Lines 29 to 35.\<close>

definition init_state :: "'f pstate" where
  "init_state =
     \<lparr>blockin = False, clip = True, x_acc = [], y_acc = [], xblock = None, yblock = None,
      xlab = [], ylab = [], xlim = [], ylim = []\<rparr>"

subsection \<open>One line\<close>

text \<open>Lines 41 to 50: the two block markers.\<close>

definition block_markers :: "string list \<Rightarrow> 'f pstate \<Rightarrow> py_error + 'f pstate" where
  "block_markers arr st =
     (if length arr > 0 then
        (let st1 = (if arr ! 0 = ''BLOCK''
                    then st\<lparr>xblock := Some [], yblock := Some [], blockin := True\<rparr>
                    else st)
         in if arr ! 0 = ''BLOCKEND'' then
              (case xblock st1 of
                 None \<Rightarrow> Inl UnboundLocalError
               | Some xb \<Rightarrow>
                   (case yblock st1 of
                      None \<Rightarrow> Inl UnboundLocalError
                    | Some yb \<Rightarrow>
                        Inr (st1\<lparr>x_acc := x_acc st1 @ [xb], y_acc := y_acc st1 @ [yb],
                                 blockin := False\<rparr>)))
            else Inr st1)
      else Inr st)"

text \<open>Lines 69 and 70: the delimiter for a \<open>PLOTTED\<close> line, outside any \<open>try\<close>.\<close>

definition append_none :: "'f pstate \<Rightarrow> py_error + 'f pstate" where
  "append_none st =
     (case xblock st of
        None \<Rightarrow> Inl UnboundLocalError
      | Some xb \<Rightarrow>
          (case yblock st of
             None \<Rightarrow> Inl UnboundLocalError
           | Some yb \<Rightarrow> Inr (st\<lparr>xblock := Some (xb @ [None]), yblock := Some (yb @ [None])\<rparr>)))"

text \<open>
  Lines 72 to 76: two appends in one \<open>try\<close> whose handler is \<open>pass\<close>. The first append is
  done when the second statement is reached; whatever fails leaves the state as it is
  at that point.
\<close>

definition append_pair :: "(string \<Rightarrow> 'f option) \<Rightarrow> string \<Rightarrow> string \<Rightarrow> 'f pstate \<Rightarrow> 'f pstate" where
  "append_pair flt a0 a1 st =
     (case xblock st of
        None \<Rightarrow> st
      | Some xb \<Rightarrow>
          (case flt a0 of
             None \<Rightarrow> st
           | Some vx \<Rightarrow>
               (let st1 = st\<lparr>xblock := Some (xb @ [Some vx])\<rparr>
                in case yblock st1 of
                     None \<Rightarrow> st1
                   | Some yb \<Rightarrow>
                       (case flt a1 of
                          None \<Rightarrow> st1
                        | Some vy \<Rightarrow> st1\<lparr>yblock := Some (yb @ [Some vy])\<rparr>))))"

text \<open>Lines 53 to 63: the labels and the clip flag, four \<open>if\<close> statements in a row.\<close>

definition set_labels_clip :: "string list \<Rightarrow> 'f pstate \<Rightarrow> 'f pstate" where
  "set_labels_clip arr st =
     (let st1 = (if arr ! 0 = ''XTEXT'' then st\<lparr>xlab := str_join (drop 1 arr)\<rparr> else st);
          st2 = (if arr ! 0 = ''YTEXT'' then st1\<lparr>ylab := str_join (drop 1 arr)\<rparr> else st1);
          st3 = (if arr ! 0 = ''CLIP'' \<and> arr ! 1 = ''ON'' then st2\<lparr>clip := True\<rparr> else st2)
      in (if arr ! 0 = ''CLIP'' \<and> arr ! 1 = ''OFF'' then st3\<lparr>clip := False\<rparr> else st3))"

text \<open>Lines 65 to 76: the fifth \<open>if\<close>, the data of the open block.\<close>

definition block_data ::
  "(string \<Rightarrow> 'f option) \<Rightarrow> string list \<Rightarrow> 'f pstate \<Rightarrow> py_error + 'f pstate" where
  "block_data flt arr st =
     (if blockin st \<and> clip st then
        (if arr ! 1 = ''PLOTTED'' then append_none st
         else Inr (append_pair flt (arr ! 0) (arr ! 1) st))
      else Inr st)"

text \<open>Lines 52 to 76.\<close>

definition labels_clip_data ::
  "(string \<Rightarrow> 'f option) \<Rightarrow> string list \<Rightarrow> 'f pstate \<Rightarrow> py_error + 'f pstate" where
  "labels_clip_data flt arr st =
     (if length arr > 1 then block_data flt arr (set_labels_clip arr st) else Inr st)"

text \<open>
  Lines 80 and 81, and 84 and 85: two floats appended to a limit list, no \<open>try\<close>. A
  \<open>ValueError\<close> ends the call, so the list as it is after one append is never seen.
\<close>

definition scale_values :: "(string \<Rightarrow> 'f option) \<Rightarrow> string list \<Rightarrow> py_error + 'f list" where
  "scale_values flt arr =
     (case flt (arr ! 1) of
        None \<Rightarrow> Inl ValueError
      | Some a \<Rightarrow>
          (case flt (arr ! 2) of
             None \<Rightarrow> Inl ValueError
           | Some b \<Rightarrow> Inr [a, b]))"

text \<open>Lines 78 to 85.\<close>

definition scales ::
  "(string \<Rightarrow> 'f option) \<Rightarrow> string list \<Rightarrow> 'f pstate \<Rightarrow> py_error + 'f pstate" where
  "scales flt arr st =
     (if length arr > 2 then
        bind_res
          (if arr ! 0 = ''XSCALE''
           then bind_res (scale_values flt arr) (\<lambda>vs. Inr (st\<lparr>xlim := xlim st @ vs\<rparr>))
           else Inr st)
          (\<lambda>st1. if arr ! 0 = ''YSCALE''
                 then bind_res (scale_values flt arr) (\<lambda>vs. Inr (st1\<lparr>ylim := ylim st1 @ vs\<rparr>))
                 else Inr st1)
      else Inr st)"

text \<open>Lines 41 to 85: the three \<open>if\<close> statements on the token list, one after the other.\<close>

definition process_tokens ::
  "(string \<Rightarrow> 'f option) \<Rightarrow> string list \<Rightarrow> 'f pstate \<Rightarrow> py_error + 'f pstate" where
  "process_tokens flt arr st =
     bind_res (block_markers arr st)
       (\<lambda>s1. bind_res (labels_clip_data flt arr s1) (scales flt arr))"

text \<open>The body of the loop, lines 38 to 85.\<close>

definition process_line ::
  "(string \<Rightarrow> 'f option) \<Rightarrow> 'f pstate \<Rightarrow> string \<Rightarrow> py_error + 'f pstate" where
  "process_line flt st line = process_tokens flt (tokens line) st"

subsection \<open>The loop and the result\<close>

fun run :: "(string \<Rightarrow> 'f option) \<Rightarrow> 'f pstate \<Rightarrow> string list \<Rightarrow> py_error + 'f pstate" where
  "run flt st [] = Inr st"
| "run flt st (l # ls) = bind_res (process_line flt st l) (\<lambda>st'. run flt st' ls)"

text \<open>Lines 88 to 93: the loop over \<open>zip(x, y)\<close> with the two accumulators.\<close>

fun flatten_loop ::
  "('f option list \<times> 'f option list) list \<Rightarrow> 'f option list \<times> 'f option list \<Rightarrow>
   'f option list \<times> 'f option list" where
  "flatten_loop [] acc = acc"
| "flatten_loop ((xb, yb) # bs) (newx, newy) =
     flatten_loop bs (newx @ (xb @ [None]), newy @ (yb @ [None]))"

definition finish :: "bool \<Rightarrow> 'f pstate \<Rightarrow> 'f load_result" where
  "finish blocks st =
     (if \<not> blocks then
        (let (newx, newy) = flatten_loop (zip (x_acc st) (y_acc st)) ([], [])
         in (Flat newx, Flat newy, xlab st, ylab st, xlim st, ylim st))
      else (Blocks (x_acc st), Blocks (y_acc st), xlab st, ylab st, xlim st, ylim st))"

definition load_exp_datafile ::
  "(string \<Rightarrow> 'f option) \<Rightarrow> string list \<Rightarrow> bool \<Rightarrow> py_error + 'f load_result" where
  "load_exp_datafile flt lines blocks =
     bind_res (run flt init_state lines) (\<lambda>st. Inr (finish blocks st))"

subsection \<open>A model of \<open>float\<close> on plain decimal literals\<close>

text \<open>
  \<open>py_float\<close> reads an optional sign, digits and an optional fraction (\<open>12\<close>, \<open>-5\<close>, \<open>1.0\<close>,
  \<open>.5\<close>, \<open>3.\<close>) and gives the decimal's value as a real number. It serves the closed
  examples below, whose numerals are all exact in binary floating point. It is not
  \<open>float\<close> outside this fragment: Python also reads exponents, \<open>inf\<close>, \<open>nan\<close> and digit
  separators, and rounds. The general theorems do not mention it.
\<close>

definition is_digit :: "char \<Rightarrow> bool" where
  "is_digit c = (let n = of_char c :: nat in 48 \<le> n \<and> n \<le> 57)"

fun digits_val :: "nat \<Rightarrow> string \<Rightarrow> nat" where
  "digits_val acc [] = acc"
| "digits_val acc (c # cs) = digits_val (10 * acc + (of_char c - 48)) cs"

definition unsigned_float :: "string \<Rightarrow> real option" where
  "unsigned_float s =
     (let ip = takeWhile is_digit s; rest = dropWhile is_digit s
      in case rest of
           [] \<Rightarrow> (if ip = [] then None else Some (real (digits_val 0 ip)))
         | c # fp \<Rightarrow>
             (if c = CHR ''.'' \<and> list_all is_digit fp \<and> (ip \<noteq> [] \<or> fp \<noteq> [])
              then Some (real (digits_val 0 ip) + real (digits_val 0 fp) / 10 ^ length fp)
              else None))"

definition py_float :: "string \<Rightarrow> real option" where
  "py_float s =
     (case s of
        [] \<Rightarrow> None
      | c # r \<Rightarrow>
          (if c = CHR ''-'' then map_option uminus (unsigned_float r)
           else if c = CHR ''+'' then unsigned_float r
           else unsigned_float s))"

subsection \<open>Notions used in the statements\<close>

text \<open>
  The lines of a text file as the iteration over the file yields them, each with its
  line feed.
\<close>

definition text_lines :: "string list \<Rightarrow> string list" where
  "text_lines ls = map (\<lambda>l. l @ [CHR 0x0A]) ls"

text \<open>
  In every state the loop reaches, an open block has both of its lists bound: \<open>blockin\<close>
  is set only by a \<open>BLOCK\<close> line, which binds them first.
\<close>

definition state_ok :: "'f pstate \<Rightarrow> bool" where
  "state_ok st = (\<not> blockin st \<or> (xblock st \<noteq> None \<and> yblock st \<noteq> None))"

text \<open>
  An \<open>XSCALE\<close> or \<open>YSCALE\<close> line of at least three tokens whose second or third token
  is not a float.
\<close>

definition bad_scale_tokens :: "(string \<Rightarrow> 'f option) \<Rightarrow> string list \<Rightarrow> bool" where
  "bad_scale_tokens flt arr =
     (length arr > 2 \<and> (arr ! 0 = ''XSCALE'' \<or> arr ! 0 = ''YSCALE'') \<and>
      (flt (arr ! 1) = None \<or> flt (arr ! 2) = None))"

definition bad_scale_line :: "(string \<Rightarrow> 'f option) \<Rightarrow> string \<Rightarrow> bool" where
  "bad_scale_line flt l = bad_scale_tokens flt (tokens l)"

text \<open>The line has a first token and it is \<open>m\<close>.\<close>

definition first_token_is :: "string \<Rightarrow> string \<Rightarrow> bool" where
  "first_token_is m l = (take 1 (tokens l) = [m])"

definition blockend_count :: "string list \<Rightarrow> nat" where
  "blockend_count ls = length (filter (first_token_is ''BLOCKEND'') ls)"


text \<open>
  The second and third tokens of the lines of at least three tokens whose first token
  is \<open>m\<close>, in the order of the stream.
\<close>

definition scale_tokens :: "string \<Rightarrow> string list \<Rightarrow> string list" where
  "scale_tokens m ls =
     concat (map (\<lambda>l. let arr = tokens l
                       in if length arr > 2 \<and> arr ! 0 = m then [arr ! 1, arr ! 2] else []) ls)"


text \<open>
  The blocks of a stream as the specification describes them, to compare with what the
  code seals. An entry of a block is a pair \<open>(x, y)\<close> or the delimiter \<open>None\<close>, which
  stands for the pair \<open>(None, None)\<close>; a pair is appended whole or not at all.
\<close>




text \<open>The x-sequence and the y-sequence of a block.\<close>

definition xs_of :: "('f \<times> 'f) option list \<Rightarrow> 'f option list" where
  "xs_of b = map (map_option fst) b"

definition ys_of :: "('f \<times> 'f) option list \<Rightarrow> 'f option list" where
  "ys_of b = map (map_option snd) b"




lemmas line_defs =
  process_line_def process_tokens_def tokens_def py_split_def strip_def is_space_def
  block_markers_def labels_clip_data_def set_labels_clip_def block_data_def scales_def
  scale_values_def append_none_def append_pair_def bind_res_def text_lines_def

lemmas load_defs = load_exp_datafile_def init_state_def finish_def

lemmas float_defs = py_float_def unsigned_float_def is_digit_def

section \<open>Properties\<close>

subsection \<open>Results and errors\<close>

lemma bind_res_Inr [simp]: "bind_res (Inr v) f = f v"
  by (simp add: bind_res_def)

lemma bind_res_Inl [simp]: "bind_res (Inl e) f = Inl e"
  by (simp add: bind_res_def)

lemma bind_res_eq_Inr: "bind_res m f = Inr r \<longleftrightarrow> (\<exists>v. m = Inr v \<and> f v = Inr r)"
  by (cases m) simp_all

lemma bind_res_eq_Inl: "bind_res m f = Inl e \<longleftrightarrow> m = Inl e \<or> (\<exists>v. m = Inr v \<and> f v = Inl e)"
  by (cases m) auto

subsection \<open>What each part of the loop body leaves alone\<close>

lemma set_labels_clip_frame [simp]:
  "blockin (set_labels_clip arr st) = blockin st"
  "xblock (set_labels_clip arr st) = xblock st"
  "yblock (set_labels_clip arr st) = yblock st"
  "x_acc (set_labels_clip arr st) = x_acc st"
  "y_acc (set_labels_clip arr st) = y_acc st"
  "xlim (set_labels_clip arr st) = xlim st"
  "ylim (set_labels_clip arr st) = ylim st"
  by (simp_all add: set_labels_clip_def Let_def)

lemma append_pair_frame [simp]:
  "blockin (append_pair flt a b st) = blockin st"
  "clip (append_pair flt a b st) = clip st"
  "x_acc (append_pair flt a b st) = x_acc st"
  "y_acc (append_pair flt a b st) = y_acc st"
  "xlab (append_pair flt a b st) = xlab st"
  "ylab (append_pair flt a b st) = ylab st"
  "xlim (append_pair flt a b st) = xlim st"
  "ylim (append_pair flt a b st) = ylim st"
  by (simp_all add: append_pair_def Let_def split: option.splits)

lemma append_pair_bound:
  "(xblock (append_pair flt a b st) = None) = (xblock st = None)"
  "(yblock (append_pair flt a b st) = None) = (yblock st = None)"
  by (simp_all add: append_pair_def Let_def split: option.splits)

lemma append_none_frame:
  "append_none st = Inr s1 \<Longrightarrow>
   blockin s1 = blockin st \<and> clip s1 = clip st \<and> x_acc s1 = x_acc st \<and> y_acc s1 = y_acc st \<and>
   xlab s1 = xlab st \<and> ylab s1 = ylab st \<and> xlim s1 = xlim st \<and> ylim s1 = ylim st \<and>
   (xblock s1 = None) = (xblock st = None) \<and> (yblock s1 = None) = (yblock st = None)"
  by (auto simp: append_none_def split: option.splits)

lemma block_data_frame:
  "block_data flt arr st = Inr s1 \<Longrightarrow>
   blockin s1 = blockin st \<and> clip s1 = clip st \<and> x_acc s1 = x_acc st \<and> y_acc s1 = y_acc st \<and>
   xlab s1 = xlab st \<and> ylab s1 = ylab st \<and> xlim s1 = xlim st \<and> ylim s1 = ylim st \<and>
   (xblock s1 = None) = (xblock st = None) \<and> (yblock s1 = None) = (yblock st = None)"
  by (auto simp: block_data_def append_pair_bound dest: append_none_frame split: if_splits)

lemma labels_clip_data_frame:
  "labels_clip_data flt arr st = Inr s1 \<Longrightarrow>
   blockin s1 = blockin st \<and> x_acc s1 = x_acc st \<and> y_acc s1 = y_acc st \<and>
   xlim s1 = xlim st \<and> ylim s1 = ylim st \<and>
   (xblock s1 = None) = (xblock st = None) \<and> (yblock s1 = None) = (yblock st = None)"
  by (auto simp: labels_clip_data_def dest!: block_data_frame split: if_splits)

lemma scale_values_cases:
  "scale_values flt arr =
     (if flt (arr ! 1) = None \<or> flt (arr ! 2) = None then Inl ValueError
      else Inr [the (flt (arr ! 1)), the (flt (arr ! 2))])"
  by (simp add: scale_values_def split: option.splits)

lemma scales_frame:
  "scales flt arr st = Inr s1 \<Longrightarrow>
   blockin s1 = blockin st \<and> clip s1 = clip st \<and> x_acc s1 = x_acc st \<and> y_acc s1 = y_acc st \<and>
   xlab s1 = xlab st \<and> ylab s1 = ylab st \<and> xblock s1 = xblock st \<and> yblock s1 = yblock st"
  by (auto simp: scales_def scale_values_cases split: if_splits)

subsection \<open>Which errors a line can raise\<close>

lemma block_markers_not_ValueError: "block_markers arr st \<noteq> Inl ValueError"
  by (simp add: block_markers_def Let_def split: option.splits)

lemma labels_clip_data_not_ValueError: "labels_clip_data flt arr st \<noteq> Inl ValueError"
  by (simp add: labels_clip_data_def block_data_def append_none_def split: option.splits)

lemma scales_error: "scales flt arr st = Inl e \<longleftrightarrow> e = ValueError \<and> bad_scale_tokens flt arr"
  by (auto simp: scales_def scale_values_cases bad_scale_tokens_def)

lemma scales_ok: "\<not> bad_scale_tokens flt arr \<Longrightarrow> \<exists>st'. scales flt arr st = Inr st'"
  using scales_error [of flt arr st] by (cases "scales flt arr st") auto

lemma process_tokens_ValueError:
  "process_tokens flt arr st = Inl ValueError \<Longrightarrow> bad_scale_tokens flt arr"
  by (auto simp: process_tokens_def bind_res_eq_Inl block_markers_not_ValueError
      labels_clip_data_not_ValueError scales_error)

lemma labels_clip_data_total:
  "state_ok st \<Longrightarrow> \<exists>s1. labels_clip_data flt arr st = Inr s1"
  by (auto simp: labels_clip_data_def block_data_def state_ok_def append_none_def
      split: option.splits)

lemma block_markers_other:
  "arr \<noteq> [] \<Longrightarrow> arr ! 0 \<noteq> ''BLOCK'' \<Longrightarrow> arr ! 0 \<noteq> ''BLOCKEND'' \<Longrightarrow>
   block_markers arr st = Inr st"
  by (simp add: block_markers_def)

lemma bad_scale_raises:
  assumes "state_ok st" "bad_scale_tokens flt arr"
  shows "process_tokens flt arr st = Inl ValueError"
proof -
  from assms(2) have "block_markers arr st = Inr st"
    by (intro block_markers_other) (auto simp: bad_scale_tokens_def)
  moreover obtain s1 where "labels_clip_data flt arr st = Inr s1"
    using labels_clip_data_total [OF assms(1)] by blast
  moreover have "scales flt arr s1 = Inl ValueError"
    using assms(2) by (simp add: scales_error)
  ultimately show ?thesis by (simp add: process_tokens_def)
qed

subsection \<open>The states the loop reaches\<close>

lemma block_markers_ok:
  "block_markers arr st = Inr s1 \<Longrightarrow> state_ok st \<Longrightarrow> state_ok s1"
  by (auto simp: block_markers_def state_ok_def Let_def split: option.splits if_splits)

lemma labels_clip_data_ok:
  "labels_clip_data flt arr st = Inr s1 \<Longrightarrow> state_ok st \<Longrightarrow> state_ok s1"
  using labels_clip_data_frame [of flt arr st s1] by (simp add: state_ok_def)

lemma scales_state_ok:
  "scales flt arr st = Inr s1 \<Longrightarrow> state_ok st \<Longrightarrow> state_ok s1"
  using scales_frame [of flt arr st s1] by (simp add: state_ok_def)

lemma process_tokens_state_ok:
  "process_tokens flt arr st = Inr st' \<Longrightarrow> state_ok st \<Longrightarrow> state_ok st'"
  by (auto simp: process_tokens_def bind_res_eq_Inr
      dest: block_markers_ok labels_clip_data_ok scales_state_ok)

lemma state_ok_init: "state_ok init_state"
  by (simp add: state_ok_def init_state_def)

lemma run_state_ok: "run flt st ls = Inr st' \<Longrightarrow> state_ok st \<Longrightarrow> state_ok st'"
proof (induction ls arbitrary: st)
  case Nil
  then show ?case by simp
next
  case (Cons l ls)
  then show ?case
    by (auto simp: bind_res_eq_Inr process_line_def dest: process_tokens_state_ok)
qed

lemma run_append: "run flt st (p @ q) = bind_res (run flt st p) (\<lambda>s. run flt s q)"
proof (induction p arbitrary: st)
  case Nil
  show ?case by simp
next
  case (Cons l p)
  show ?case by (cases "process_line flt st l") (simp_all add: Cons.IH)
qed

lemma run_ValueError:
  "run flt st ls = Inl ValueError \<Longrightarrow>
   \<exists>p l r s. ls = p @ l # r \<and> run flt st p = Inr s \<and> bad_scale_line flt l"
proof (induction ls arbitrary: st)
  case Nil
  then show ?case by simp
next
  case (Cons l ls)
  show ?case
  proof (cases "process_line flt st l")
    case (Inl e)
    with Cons.prems have "process_tokens flt (tokens l) st = Inl ValueError"
      by (simp add: process_line_def)
    then have "bad_scale_line flt l"
      by (simp add: bad_scale_line_def process_tokens_ValueError)
    then have "l # ls = [] @ l # ls \<and> run flt st [] = Inr st \<and> bad_scale_line flt l"
      by simp
    then show ?thesis by blast
  next
    case (Inr s1)
    with Cons.prems have "run flt s1 ls = Inl ValueError" by simp
    from Cons.IH [OF this] obtain p k r s
      where "ls = p @ k # r" "run flt s1 p = Inr s" "bad_scale_line flt k" by blast
    then have "l # ls = (l # p) @ k # r \<and> run flt st (l # p) = Inr s \<and> bad_scale_line flt k"
      using Inr by simp
    then show ?thesis by blast
  qed
qed

subsection \<open>The first tokens of a line\<close>

lemma take1_eq: "take (Suc 0) arr = [m] \<longleftrightarrow> arr \<noteq> [] \<and> arr ! 0 = m"
  by (cases arr) auto

lemma take2_eq: "take 2 arr = [m, k] \<longleftrightarrow> length arr > 1 \<and> arr ! 0 = m \<and> arr ! 1 = k"
proof (cases arr)
  case Nil
  then show ?thesis by simp
next
  case (Cons a as)
  then show ?thesis by (cases as) auto
qed

subsection \<open>The block markers\<close>

lemma block_markers_effect:
  assumes "block_markers arr st = Inr s1"
  shows "blockin s1 = (if take 1 arr = [''BLOCK''] then True
                       else if take 1 arr = [''BLOCKEND''] then False else blockin st)"
    and "length (x_acc s1) = length (x_acc st) + (if take 1 arr = [''BLOCKEND''] then 1 else 0)"
    and "length (y_acc s1) = length (y_acc st) + (if take 1 arr = [''BLOCKEND''] then 1 else 0)"
    and "clip s1 = clip st" "xlab s1 = xlab st" "ylab s1 = ylab st"
    and "xlim s1 = xlim st" "ylim s1 = ylim st"
    and "take 1 arr \<noteq> [''BLOCK''] \<Longrightarrow> xblock s1 = xblock st \<and> yblock s1 = yblock st"
  using assms
  by (auto simp: block_markers_def take1_eq Let_def split: if_splits option.splits)

lemma block_markers_total:
  assumes "take 1 arr = [''BLOCKEND''] \<longrightarrow> xblock st \<noteq> None \<and> yblock st \<noteq> None"
  shows "\<exists>s1. block_markers arr st = Inr s1"
  using assms by (auto simp: block_markers_def take1_eq Let_def split: option.splits)

lemma process_tokens_total:
  assumes "state_ok st" "\<not> bad_scale_tokens flt arr"
    and "take 1 arr = [''BLOCKEND''] \<longrightarrow> xblock st \<noteq> None \<and> yblock st \<noteq> None"
  shows "\<exists>st'. process_tokens flt arr st = Inr st'"
proof -
  obtain s1 where 1: "block_markers arr st = Inr s1"
    using block_markers_total [OF assms(3)] by blast
  have "state_ok s1" using block_markers_ok [OF 1 assms(1)] .
  then obtain s2 where 2: "labels_clip_data flt arr s1 = Inr s2"
    using labels_clip_data_total by blast
  obtain s3 where 3: "scales flt arr s2 = Inr s3"
    using scales_ok [OF assms(2)] by blast
  show ?thesis using 1 2 3 by (simp add: process_tokens_def)
qed

lemma process_tokens_blocks:
  assumes "process_tokens flt arr st = Inr st'"
  shows "blockin st' = (if take 1 arr = [''BLOCK''] then True
                        else if take 1 arr = [''BLOCKEND''] then False else blockin st)"
    and "length (x_acc st') = length (x_acc st) + (if take 1 arr = [''BLOCKEND''] then 1 else 0)"
    and "length (y_acc st') = length (y_acc st) + (if take 1 arr = [''BLOCKEND''] then 1 else 0)"
proof -
  from assms obtain s1 s2 where
    1: "block_markers arr st = Inr s1" and 2: "labels_clip_data flt arr s1 = Inr s2" and
    3: "scales flt arr s2 = Inr st'"
    by (auto simp: process_tokens_def bind_res_eq_Inr)
  note f = labels_clip_data_frame [OF 2] scales_frame [OF 3]
  show "blockin st' = (if take 1 arr = [''BLOCK''] then True
                        else if take 1 arr = [''BLOCKEND''] then False else blockin st)"
    using block_markers_effect(1) [OF 1] f by simp
  show "length (x_acc st') = length (x_acc st) + (if take 1 arr = [''BLOCKEND''] then 1 else 0)"
    using block_markers_effect(2) [OF 1] f by simp
  show "length (y_acc st') = length (y_acc st) + (if take 1 arr = [''BLOCKEND''] then 1 else 0)"
    using block_markers_effect(3) [OF 1] f by simp
qed

lemma run_sealed_count:
  "run flt st ls = Inr st' \<Longrightarrow>
   length (x_acc st') = length (x_acc st) + blockend_count ls \<and>
   length (y_acc st') = length (y_acc st) + blockend_count ls"
proof (induction ls arbitrary: st)
  case Nil
  then show ?case by (simp add: blockend_count_def)
next
  case (Cons l ls)
  from Cons.prems obtain s1 where
    1: "process_tokens flt (tokens l) st = Inr s1" and 2: "run flt s1 ls = Inr st'"
    by (auto simp: bind_res_eq_Inr process_line_def)
  show ?case
    using Cons.IH [OF 2] process_tokens_blocks(2,3) [OF 1]
    by (simp add: blockend_count_def first_token_is_def)
qed

lemma process_line_marker:
  assumes "tokens l = a0 # rest" "a0 \<noteq> ''BLOCK''" "a0 \<noteq> ''BLOCKEND''"
  shows "process_line flt st l =
     bind_res (labels_clip_data flt (a0 # rest) st) (scales flt (a0 # rest))"
  using assms by (simp add: process_line_def process_tokens_def block_markers_def)

subsection \<open>The flattened result\<close>





subsection \<open>Streams with complete blocks\<close>



subsection \<open>The data of the open block\<close>

lemma append_pair_no_float [simp]: "flt a = None \<Longrightarrow> append_pair flt a b st = st"
  by (simp add: append_pair_def split: option.splits)

lemma set_labels_clip_other [simp]:
  "a1 \<noteq> ''ON'' \<Longrightarrow> a1 \<noteq> ''OFF'' \<Longrightarrow> clip (set_labels_clip (a0 # a1 # r) st) = clip st"
  by (simp add: set_labels_clip_def Let_def)

lemma append_none_bound:
  "xblock st = Some xb \<Longrightarrow> yblock st = Some yb \<Longrightarrow>
   append_none st = Inr (st\<lparr>xblock := Some (xb @ [None]), yblock := Some (yb @ [None])\<rparr>)"
  by (simp add: append_none_def)

subsection \<open>The clip flag\<close>

lemma set_labels_clip_clip:
  "length arr > 1 \<Longrightarrow>
   clip (set_labels_clip arr st) =
     (if take 2 arr = [''CLIP'', ''ON''] then True
      else if take 2 arr = [''CLIP'', ''OFF''] then False else clip st)"
  by (simp add: set_labels_clip_def Let_def take2_eq)

lemma labels_clip_data_clip:
  assumes "labels_clip_data flt arr st = Inr s1"
  shows "clip s1 =
     (if take 2 arr = [''CLIP'', ''ON''] then True
      else if take 2 arr = [''CLIP'', ''OFF''] then False else clip st)"
proof (cases "length arr > 1")
  case True
  with assms have "block_data flt arr (set_labels_clip arr st) = Inr s1"
    by (simp add: labels_clip_data_def)
  from block_data_frame [OF this] show ?thesis
    by (simp add: set_labels_clip_clip [OF True])
next
  case False
  with assms show ?thesis by (auto simp: labels_clip_data_def take2_eq)
qed

lemma process_tokens_clip:
  assumes "process_tokens flt arr st = Inr st'"
  shows "clip st' =
     (if take 2 arr = [''CLIP'', ''ON''] then True
      else if take 2 arr = [''CLIP'', ''OFF''] then False else clip st)"
proof -
  from assms obtain s1 s2 where
    1: "block_markers arr st = Inr s1" and 2: "labels_clip_data flt arr s1 = Inr s2" and
    3: "scales flt arr s2 = Inr st'"
    by (auto simp: process_tokens_def bind_res_eq_Inr)
  show ?thesis
    using block_markers_effect(4) [OF 1] labels_clip_data_clip [OF 2] scales_frame [OF 3]
    by simp
qed

lemma labels_clip_data_clip_off:
  assumes "labels_clip_data flt arr st = Inr s1" "\<not> clip s1"
  shows "xblock s1 = xblock st \<and> yblock s1 = yblock st"
proof (cases "length arr > 1")
  case True
  define s4 where "s4 = set_labels_clip arr st"
  from True assms(1) have b: "block_data flt arr s4 = Inr s1"
    by (simp add: labels_clip_data_def s4_def)
  from block_data_frame [OF b] assms(2) have "\<not> clip s4" by simp
  then have "block_data flt arr s4 = Inr s4" by (simp add: block_data_def)
  with b have "s1 = s4" by simp
  then show ?thesis by (simp add: s4_def)
next
  case False
  with assms show ?thesis by (simp add: labels_clip_data_def)
qed

lemma process_tokens_clip_off:
  assumes "process_tokens flt arr st = Inr st'" "\<not> clip st'" "take 1 arr \<noteq> [''BLOCK'']"
  shows "xblock st' = xblock st \<and> yblock st' = yblock st"
proof -
  from assms(1) obtain s1 s2 where
    1: "block_markers arr st = Inr s1" and 2: "labels_clip_data flt arr s1 = Inr s2" and
    3: "scales flt arr s2 = Inr st'"
    by (auto simp: process_tokens_def bind_res_eq_Inr)
  have "\<not> clip s2" using scales_frame [OF 3] assms(2) by simp
  from labels_clip_data_clip_off [OF 2 this] block_markers_effect(9) [OF 1 assms(3)]
    scales_frame [OF 3]
  show ?thesis by simp
qed

subsection \<open>Labels and limits\<close>

lemma scales_lims:
  assumes "scales flt arr st = Inr st'"
  shows "map Some (xlim st') = map Some (xlim st) @
           map flt (if length arr > 2 \<and> arr ! 0 = ''XSCALE'' then [arr ! 1, arr ! 2] else [])"
    and "map Some (ylim st') = map Some (ylim st) @
           map flt (if length arr > 2 \<and> arr ! 0 = ''YSCALE'' then [arr ! 1, arr ! 2] else [])"
  using assms by (auto simp: scales_def scale_values_cases split: if_splits)

lemma process_tokens_lims:
  assumes "process_tokens flt arr st = Inr st'"
  shows "map Some (xlim st') = map Some (xlim st) @
           map flt (if length arr > 2 \<and> arr ! 0 = ''XSCALE'' then [arr ! 1, arr ! 2] else [])"
    and "map Some (ylim st') = map Some (ylim st) @
           map flt (if length arr > 2 \<and> arr ! 0 = ''YSCALE'' then [arr ! 1, arr ! 2] else [])"
proof -
  from assms obtain s1 s2 where
    1: "block_markers arr st = Inr s1" and 2: "labels_clip_data flt arr s1 = Inr s2" and
    3: "scales flt arr s2 = Inr st'"
    by (auto simp: process_tokens_def bind_res_eq_Inr)
  have "xlim s2 = xlim st" "ylim s2 = ylim st"
    using block_markers_effect(7,8) [OF 1] labels_clip_data_frame [OF 2] by simp_all
  with scales_lims [OF 3]
  show "map Some (xlim st') = map Some (xlim st) @
           map flt (if length arr > 2 \<and> arr ! 0 = ''XSCALE'' then [arr ! 1, arr ! 2] else [])"
    and "map Some (ylim st') = map Some (ylim st) @
           map flt (if length arr > 2 \<and> arr ! 0 = ''YSCALE'' then [arr ! 1, arr ! 2] else [])"
    by simp_all
qed

lemma run_lims:
  "run flt st ls = Inr st' \<Longrightarrow>
   map Some (xlim st') = map Some (xlim st) @ map flt (scale_tokens ''XSCALE'' ls) \<and>
   map Some (ylim st') = map Some (ylim st) @ map flt (scale_tokens ''YSCALE'' ls)"
proof (induction ls arbitrary: st)
  case Nil
  then show ?case by (simp add: scale_tokens_def)
next
  case (Cons l ls)
  from Cons.prems obtain s1 where
    1: "process_tokens flt (tokens l) st = Inr s1" and 2: "run flt s1 ls = Inr st'"
    by (auto simp: bind_res_eq_Inr process_line_def)
  have s: "scale_tokens m (l # ls) =
      (if length (tokens l) > 2 \<and> tokens l ! 0 = m then [tokens l ! 1, tokens l ! 2] else []) @
      scale_tokens m ls" for m
    by (simp add: scale_tokens_def Let_def)
  show ?case
    using Cons.IH [OF 2] process_tokens_lims [OF 1] by (simp only: s map_append append_assoc)
qed

lemma scale_line_appends:
  assumes "state_ok st" "tokens l = a0 # a1 # a2 # r" "flt a1 = Some v1" "flt a2 = Some v2"
  shows "a0 = ''XSCALE'' \<Longrightarrow>
           \<exists>st'. process_line flt st l = Inr st' \<and> xlim st' = xlim st @ [v1, v2] \<and>
                 ylim st' = ylim st"
    and "a0 = ''YSCALE'' \<Longrightarrow>
           \<exists>st'. process_line flt st l = Inr st' \<and> ylim st' = ylim st @ [v1, v2] \<and>
                 xlim st' = xlim st"
proof -
  obtain s2 where 2: "labels_clip_data flt (a0 # a1 # a2 # r) st = Inr s2"
    using labels_clip_data_total [OF assms(1)] by blast
  note f = labels_clip_data_frame [OF 2]
  {
    assume a: "a0 = ''XSCALE''"
    have "process_line flt st l = scales flt (a0 # a1 # a2 # r) s2"
      using process_line_marker [OF assms(2), of flt st] a 2 by simp
    also have "\<dots> = Inr (s2\<lparr>xlim := xlim s2 @ [v1, v2]\<rparr>)"
      using a assms(3,4) by (simp add: scales_def scale_values_def)
    finally show "\<exists>st'. process_line flt st l = Inr st' \<and> xlim st' = xlim st @ [v1, v2] \<and>
                 ylim st' = ylim st"
      using f by simp
  }
  {
    assume a: "a0 = ''YSCALE''"
    have "process_line flt st l = scales flt (a0 # a1 # a2 # r) s2"
      using process_line_marker [OF assms(2), of flt st] a 2 by simp
    also have "\<dots> = Inr (s2\<lparr>ylim := ylim s2 @ [v1, v2]\<rparr>)"
      using a assms(3,4) by (simp add: scales_def scale_values_def)
    finally show "\<exists>st'. process_line flt st l = Inr st' \<and> ylim st' = ylim st @ [v1, v2] \<and>
                 xlim st' = xlim st"
      using f by simp
  }
qed

lemma set_labels_clip_labels:
  "xlab (set_labels_clip (a0 # a1 # r) st) = (if a0 = ''XTEXT'' then str_join (a1 # r) else xlab st)"
  "ylab (set_labels_clip (a0 # a1 # r) st) = (if a0 = ''YTEXT'' then str_join (a1 # r) else ylab st)"
  by (simp_all add: set_labels_clip_def Let_def)

lemma process_line_meta:
  assumes "state_ok st" "tokens l = a0 # a1 # r" "a0 \<noteq> ''BLOCK''" "a0 \<noteq> ''BLOCKEND''"
    and "a0 \<noteq> ''XSCALE''" "a0 \<noteq> ''YSCALE''"
  shows "\<exists>st'. process_line flt st l = Inr st' \<and>
     xlab st' = (if a0 = ''XTEXT'' then str_join (a1 # r) else xlab st) \<and>
     ylab st' = (if a0 = ''YTEXT'' then str_join (a1 # r) else ylab st) \<and>
     clip st' = (if a0 = ''CLIP'' \<and> a1 = ''ON'' then True
                 else if a0 = ''CLIP'' \<and> a1 = ''OFF'' then False else clip st)"
proof -
  obtain s2 where 2: "labels_clip_data flt (a0 # a1 # r) st = Inr s2"
    using labels_clip_data_total [OF assms(1)] by blast
  then have b: "block_data flt (a0 # a1 # r) (set_labels_clip (a0 # a1 # r) st) = Inr s2"
    by (simp add: labels_clip_data_def)
  have "scales flt (a0 # a1 # r) s2 = Inr s2"
    using assms(5,6) by (simp add: scales_def)
  then have p: "process_line flt st l = Inr s2"
    using process_line_marker [OF assms(2,3,4), of flt st] 2 by simp
  have "xlab s2 = (if a0 = ''XTEXT'' then str_join (a1 # r) else xlab st)"
    "ylab s2 = (if a0 = ''YTEXT'' then str_join (a1 # r) else ylab st)"
    using block_data_frame [OF b] by (simp_all add: set_labels_clip_labels)
  moreover have "clip s2 = (if a0 = ''CLIP'' \<and> a1 = ''ON'' then True
                 else if a0 = ''CLIP'' \<and> a1 = ''OFF'' then False else clip st)"
    using labels_clip_data_clip [OF 2] by simp
  ultimately show ?thesis using p by simp
qed

subsection \<open>The sealed blocks are the blocks of the stream\<close>

lemma xs_ys_append [simp]:
  "xs_of (b @ e) = xs_of b @ xs_of e" "ys_of (b @ e) = ys_of b @ ys_of e"
  "xs_of [] = []" "ys_of [] = []"
  by (simp_all add: xs_of_def ys_of_def)












section \<open>The claims\<close>

text \<open>
  C1. A line of an open block with clip on whose tokens are not both floats is to be
  dropped whole, with no append of x without y. The code appends x before it reads y:
  on the line \<open>1.0 abc\<close> the x-sequence of the block gets \<open>1.0\<close> and the y-sequence
  nothing.
\<close>

theorem x_appended_without_y:
  "load_exp_datafile py_float (text_lines [''BLOCK'', ''1.0 abc'', ''BLOCKEND'']) True =
     Inr (Blocks [[Some 1]], Blocks [[]], [], [], [], [])"
  by (simp add: load_defs line_defs float_defs)

text \<open>
  C2. A \<open>BLOCKEND\<close> line with no open block is to be a no-op. In the code it raises
  \<open>UnboundLocalError\<close> when no \<open>BLOCK\<close> line came before, and it appends the block
  sealed last once more when one did.
\<close>

theorem blockend_without_open_block:
  "load_exp_datafile py_float (text_lines [''BLOCKEND'']) True = Inl UnboundLocalError \<and>
   load_exp_datafile py_float (text_lines [''BLOCK'', ''1 2'', ''BLOCKEND'', ''BLOCKEND'']) True =
     Inr (Blocks [[Some 1], [Some 1]], Blocks [[Some 2], [Some 2]], [], [], [], [])"
  by (simp add: load_defs line_defs float_defs)

text \<open>
  C3, as stated: no line raises on a token that is not a float, an \<open>XSCALE\<close> line
  included. The file of the one line \<open>XSCALE 0 abc\<close> raises \<open>ValueError\<close>.
\<close>

theorem bad_xscale_raises:
  "load_exp_datafile py_float (text_lines [''XSCALE 0 abc'']) False = Inl ValueError"
  by (simp add: load_defs line_defs float_defs)

text \<open>
  C3, amended: the call raises \<open>ValueError\<close> exactly when the loop reaches, with no
  error before it, an \<open>XSCALE\<close> or \<open>YSCALE\<close> line of at least three tokens whose second
  or third token is not a float. Every other line that is not a \<open>BLOCKEND\<close> line, the
  coordinate lines among them, is read without any error in every state the loop
  reaches, whatever its tokens are: a token that is not a float is passed over and the
  loop goes on.
\<close>

theorem load_ValueError_iff:
  "(load_exp_datafile flt lines blocks = Inl ValueError \<longleftrightarrow>
      (\<exists>p l r st. lines = p @ l # r \<and> run flt init_state p = Inr st \<and> bad_scale_line flt l)) \<and>
   (state_ok s \<and> \<not> bad_scale_line flt k \<and> \<not> first_token_is ''BLOCKEND'' k \<longrightarrow>
      (\<exists>s'. process_line flt s k = Inr s'))"
proof (intro conjI iffI impI)
  assume "load_exp_datafile flt lines blocks = Inl ValueError"
  then have "run flt init_state lines = Inl ValueError"
    by (auto simp: load_exp_datafile_def bind_res_eq_Inl)
  then show "\<exists>p l r st. lines = p @ l # r \<and> run flt init_state p = Inr st \<and> bad_scale_line flt l"
    by (rule run_ValueError)
next
  assume "\<exists>p l r st. lines = p @ l # r \<and> run flt init_state p = Inr st \<and> bad_scale_line flt l"
  then obtain p l r st where
    d: "lines = p @ l # r" and p: "run flt init_state p = Inr st" and b: "bad_scale_line flt l"
    by blast
  have "state_ok st" using run_state_ok [OF p state_ok_init] .
  then have "process_line flt st l = Inl ValueError"
    using b by (simp add: process_line_def bad_scale_line_def bad_scale_raises)
  then have "run flt init_state lines = Inl ValueError"
    by (simp add: d run_append p)
  then show "load_exp_datafile flt lines blocks = Inl ValueError"
    by (simp add: load_exp_datafile_def)
next
  assume "state_ok s \<and> \<not> bad_scale_line flt k \<and> \<not> first_token_is ''BLOCKEND'' k"
  then show "\<exists>s'. process_line flt s k = Inr s'"
    using process_tokens_total [of s flt "tokens k"]
    by (simp add: process_line_def bad_scale_line_def first_token_is_def)
qed

theorem load_ValueError_iff_witness:
  "(\<exists>p l r st. text_lines [''YSCALE -5 5'', ''XSCALE 0 abc''] = p @ l # r \<and>
      run py_float init_state p = Inr (st :: real pstate) \<and> bad_scale_line py_float l) \<and>
   (\<exists>s'. process_line py_float
      \<lparr>blockin = True, clip = True, x_acc = [], y_acc = [], xblock = Some [], yblock = Some [],
       xlab = [], ylab = [], xlim = [], ylim = []\<rparr> ''abc def'' = Inr s')"
proof -
  have "load_exp_datafile py_float (text_lines [''YSCALE -5 5'', ''XSCALE 0 abc'']) False =
          Inl ValueError"
    by (simp add: load_defs line_defs float_defs)
  moreover have "state_ok \<lparr>blockin = True, clip = True, x_acc = [], y_acc = [],
       xblock = Some [], yblock = Some [], xlab = [], ylab = [], xlim = [],
       ylim = ([] :: real list)\<rparr>"
    by (simp add: state_ok_def)
  moreover have "\<not> bad_scale_line py_float ''abc def''"
    "\<not> first_token_is ''BLOCKEND'' ''abc def''"
    by (simp_all add: bad_scale_line_def bad_scale_tokens_def first_token_is_def tokens_def
        py_split_def strip_def is_space_def)
  ultimately show ?thesis
    using load_ValueError_iff [of py_float "text_lines [''YSCALE -5 5'', ''XSCALE 0 abc'']" False
        "\<lparr>blockin = True, clip = True, x_acc = [], y_acc = [], xblock = Some [], yblock = Some [],
          xlab = [], ylab = [], xlim = [], ylim = []\<rparr>" "''abc def''"]
    by simp
qed

text \<open>
  C4, as stated: a line whose first token is \<open>XTEXT\<close>, \<open>YTEXT\<close> or \<open>CLIP\<close> appends
  neither a pair nor a \<open>(None, None)\<close> delimiter to the open block, even with the block
  open, clip on and \<open>PLOTTED\<close> as second token. The line \<open>XTEXT PLOTTED\<close> in an open
  block sets the label and appends the delimiter: the data branch is a fifth \<open>if\<close>, not
  an \<open>else\<close>.
\<close>

theorem sentinel_on_xtext_line:
  "load_exp_datafile py_float (text_lines [''BLOCK'', ''XTEXT PLOTTED'', ''BLOCKEND'']) True =
     Inr (Blocks [[None]], Blocks [[None]], ''PLOTTED'', [], [], [])"
  by (simp add: load_defs line_defs float_defs)

text \<open>
  C4, amended: on a line whose first token is \<open>XTEXT\<close>, \<open>YTEXT\<close> or \<open>CLIP\<close> (none of
  which is a float) no number is appended to the open block, and the sealed blocks are
  unchanged; the delimiter \<open>None\<close> is appended to both lists of the open block exactly
  when a block is open, clip is on and the second token is \<open>PLOTTED\<close>.
\<close>

theorem marker_line_block_effect:
  assumes "tokens l = a0 # rest" "a0 = ''XTEXT'' \<or> a0 = ''YTEXT'' \<or> a0 = ''CLIP''"
    and "flt a0 = None" "state_ok st"
  shows "\<exists>st'. process_line flt st l = Inr st' \<and>
     xblock st' = (if blockin st \<and> clip st \<and> take 1 rest = [''PLOTTED'']
                   then map_option (\<lambda>b. b @ [None]) (xblock st) else xblock st) \<and>
     yblock st' = (if blockin st \<and> clip st \<and> take 1 rest = [''PLOTTED'']
                   then map_option (\<lambda>b. b @ [None]) (yblock st) else yblock st) \<and>
     x_acc st' = x_acc st \<and> y_acc st' = y_acc st"
proof -
  have p: "process_line flt st l =
     bind_res (labels_clip_data flt (a0 # rest) st) (scales flt (a0 # rest))"
    using assms(1,2) by (intro process_line_marker) auto
  have s: "scales flt (a0 # r) s = Inr s" for s :: "'a pstate" and r
    using assms(2) by (auto simp: scales_def)
  show ?thesis
  proof (cases rest)
    case Nil
    then show ?thesis by (simp add: p s labels_clip_data_def)
  next
    case (Cons a1 r)
    define s4 where "s4 = set_labels_clip (a0 # a1 # r) st"
    have l: "labels_clip_data flt (a0 # rest) st = block_data flt (a0 # a1 # r) s4"
      by (simp add: Cons labels_clip_data_def s4_def)
    have t: "(take (Suc 0) rest = [''PLOTTED'']) = (a1 = ''PLOTTED'')"
      by (simp add: Cons)
    show ?thesis
    proof (cases "blockin st \<and> clip st \<and> a1 = ''PLOTTED''")
      case True
      then obtain xb yb where b: "xblock st = Some xb" "yblock st = Some yb"
        using assms(4) by (auto simp: state_ok_def)
      define sf where "sf = s4\<lparr>xblock := Some (xb @ [None]), yblock := Some (yb @ [None])\<rparr>"
      have "blockin s4 \<and> clip s4" using True by (simp add: s4_def)
      then have "block_data flt (a0 # a1 # r) s4 = Inr sf"
        using True b by (simp add: block_data_def append_none_bound s4_def sf_def)
      then have r: "process_line flt st l = Inr sf"
        by (simp only: p l bind_res_Inr s)
      have "xblock sf = map_option (\<lambda>b. b @ [None]) (xblock st)"
        "yblock sf = map_option (\<lambda>b. b @ [None]) (yblock st)"
        "x_acc sf = x_acc st" "y_acc sf = y_acc st"
        by (simp_all add: sf_def s4_def b)
      with r True show ?thesis by (simp add: t)
    next
      case False
      have "block_data flt (a0 # a1 # r) s4 = Inr s4"
      proof (cases "blockin s4 \<and> clip s4")
        case c: True
        then have "blockin st" by (simp add: s4_def)
        have "a1 \<noteq> ''PLOTTED''"
        proof
          assume e: "a1 = ''PLOTTED''"
          then have "clip s4 = clip st" by (simp add: s4_def)
          with c False e \<open>blockin st\<close> show False by simp
        qed
        then show ?thesis using c assms(3) by (simp add: block_data_def)
      next
        case False
        then show ?thesis by (auto simp: block_data_def)
      qed
      then have r: "process_line flt st l = Inr s4"
        by (simp only: p l bind_res_Inr s)
      have "xblock s4 = xblock st" "yblock s4 = yblock st"
        "x_acc s4 = x_acc st" "y_acc s4 = y_acc st"
        by (simp_all add: s4_def)
      with r False show ?thesis by (auto simp: t)
    qed
  qed
qed

theorem marker_line_block_effect_witness:
  "(\<exists>st'. process_line py_float
        \<lparr>blockin = True, clip = True, x_acc = [], y_acc = [], xblock = Some [Some 1],
         yblock = Some [Some 2], xlab = [], ylab = [], xlim = [], ylim = []\<rparr>
        ''XTEXT PLOTTED'' = Inr st' \<and>
      xblock st' = Some [Some 1, None] \<and> yblock st' = Some [Some 2, None] \<and>
      x_acc st' = [] \<and> y_acc st' = []) \<and>
   (\<exists>st'. process_line py_float
        \<lparr>blockin = True, clip = True, x_acc = [], y_acc = [], xblock = Some [Some 1],
         yblock = Some [Some 2], xlab = [], ylab = [], xlim = [], ylim = []\<rparr>
        ''CLIP 5'' = Inr st' \<and>
      xblock st' = Some [Some 1] \<and> yblock st' = Some [Some 2] \<and>
      x_acc st' = [] \<and> y_acc st' = [])"
  using
    marker_line_block_effect [of "''XTEXT PLOTTED''" "''XTEXT''" "[''PLOTTED'']" py_float
      "\<lparr>blockin = True, clip = True, x_acc = [], y_acc = [], xblock = Some [Some 1],
        yblock = Some [Some 2], xlab = [], ylab = [], xlim = [], ylim = []\<rparr>"]
    marker_line_block_effect [of "''CLIP 5''" "''CLIP''" "[''5'']" py_float
      "\<lparr>blockin = True, clip = True, x_acc = [], y_acc = [], xblock = Some [Some 1],
        yblock = Some [Some 2], xlab = [], ylab = [], xlim = [], ylim = []\<rparr>"]
  by (simp add: tokens_def py_split_def strip_def is_space_def state_ok_def float_defs)

text \<open>
  C5. The file of the six lines \<open>XTEXT Temperature\<close>, \<open>YTEXT Energy\<close>, \<open>BLOCK\<close>,
  \<open>1.0 2.0\<close>, \<open>2.0 3.0\<close>, \<open>BLOCKEND\<close>, loaded flattened, gives the x-sequence
  \<open>[1.0, 2.0, None]\<close>, the y-sequence \<open>[2.0, 3.0, None]\<close>, the labels \<open>Temperature\<close> and
  \<open>Energy\<close> and two empty limit lists. The theorem holds for every \<open>float\<close> that reads
  the three numerals; the instance after it gives their values.
\<close>

theorem six_line_file:
  assumes "flt ''1.0'' = Some v1" "flt ''2.0'' = Some v2" "flt ''3.0'' = Some v3"
  shows "load_exp_datafile flt
      (text_lines [''XTEXT Temperature'', ''YTEXT Energy'', ''BLOCK'', ''1.0 2.0'', ''2.0 3.0'',
                   ''BLOCKEND'']) False =
     Inr (Flat [Some v1, Some v2, None], Flat [Some v2, Some v3, None],
          ''Temperature'', ''Energy'', [], [])"
  using assms by (simp add: load_defs line_defs)

theorem six_line_file_witness:
  "load_exp_datafile py_float
      (text_lines [''XTEXT Temperature'', ''YTEXT Energy'', ''BLOCK'', ''1.0 2.0'', ''2.0 3.0'',
                   ''BLOCKEND'']) False =
     Inr (Flat [Some 1, Some 2, None], Flat [Some 2, Some 3, None],
          ''Temperature'', ''Energy'', [], [])"
  using six_line_file [of py_float 1 2 3] by (simp add: float_defs)



text \<open>
  C7. The clip flag is on in the initial state; a line changes it only when its first
  two tokens are \<open>CLIP ON\<close> or \<open>CLIP OFF\<close>, so it survives \<open>BLOCK\<close> and \<open>BLOCKEND\<close>; a
  line that leaves it off and does not open a block leaves both lists of the open block
  as they are. A \<open>CLIP OFF\<close> in one block still holds in the next, and in one block the
  lines \<open>CLIP OFF\<close>, \<open>1.0 2.0\<close>, \<open>CLIP ON\<close>, \<open>3.0 4.0\<close> give the single pair
  \<open>(3.0, 4.0)\<close>.
\<close>

theorem clip_flag:
  "clip (init_state :: 'f pstate) \<and>
   (process_line flt st l = Inr st' \<longrightarrow>
      clip st' = (if take 2 (tokens l) = [''CLIP'', ''ON''] then True
                  else if take 2 (tokens l) = [''CLIP'', ''OFF''] then False else clip st)) \<and>
   (process_line flt st l = Inr st' \<and> \<not> clip st' \<and> \<not> first_token_is ''BLOCK'' l \<longrightarrow>
      xblock st' = xblock st \<and> yblock st' = yblock st) \<and>
   load_exp_datafile flt
      (text_lines [''BLOCK'', ''CLIP OFF'', ''BLOCKEND'', ''BLOCK'', ''1.0 2.0'', ''BLOCKEND'']) True =
     Inr (Blocks [[], []], Blocks [[], []], [], [], [], []) \<and>
   (flt ''CLIP'' = None \<and> flt ''3.0'' = Some a \<and> flt ''4.0'' = Some b \<longrightarrow>
      load_exp_datafile flt
        (text_lines [''BLOCK'', ''CLIP OFF'', ''1.0 2.0'', ''CLIP ON'', ''3.0 4.0'', ''BLOCKEND''])
        True =
      Inr (Blocks [[Some a]], Blocks [[Some b]], [], [], [], []))"
proof (intro conjI impI)
  show "clip (init_state :: 'f pstate)" by (simp add: init_state_def)
next
  assume "process_line flt st l = Inr st'"
  then show "clip st' = (if take 2 (tokens l) = [''CLIP'', ''ON''] then True
                  else if take 2 (tokens l) = [''CLIP'', ''OFF''] then False else clip st)"
    unfolding process_line_def by (rule process_tokens_clip)
next
  assume "process_line flt st l = Inr st' \<and> \<not> clip st' \<and> \<not> first_token_is ''BLOCK'' l"
  then show "xblock st' = xblock st" "yblock st' = yblock st"
    using process_tokens_clip_off [of flt "tokens l" st st']
    by (simp_all add: process_line_def first_token_is_def)
next
  show "load_exp_datafile flt
      (text_lines [''BLOCK'', ''CLIP OFF'', ''BLOCKEND'', ''BLOCK'', ''1.0 2.0'', ''BLOCKEND'']) True =
     Inr (Blocks [[], []], Blocks [[], []], [], [], [], [])"
    by (simp add: load_defs line_defs)
next
  assume "flt ''CLIP'' = None \<and> flt ''3.0'' = Some a \<and> flt ''4.0'' = Some b"
  then show "load_exp_datafile flt
        (text_lines [''BLOCK'', ''CLIP OFF'', ''1.0 2.0'', ''CLIP ON'', ''3.0 4.0'', ''BLOCKEND''])
        True =
      Inr (Blocks [[Some a]], Blocks [[Some b]], [], [], [], [])"
    by (simp add: load_defs line_defs)
qed

theorem clip_flag_witness:
  "clip (init_state :: real pstate) \<and>
   process_line py_float
     \<lparr>blockin = True, clip = True, x_acc = [], y_acc = [], xblock = Some [], yblock = Some [],
      xlab = [], ylab = [], xlim = [], ylim = []\<rparr> ''CLIP OFF'' =
   Inr \<lparr>blockin = True, clip = False, x_acc = [], y_acc = [], xblock = Some [], yblock = Some [],
      xlab = [], ylab = [], xlim = [], ylim = []\<rparr> \<and>
   load_exp_datafile py_float
     (text_lines [''BLOCK'', ''CLIP OFF'', ''1.0 2.0'', ''CLIP ON'', ''3.0 4.0'', ''BLOCKEND''])
     True =
   Inr (Blocks [[Some 3]], Blocks [[Some 4]], [], [], [], [])"
  using clip_flag [of py_float
      "\<lparr>blockin = True, clip = True, x_acc = [], y_acc = [], xblock = Some [], yblock = Some [],
        xlab = [], ylab = [], xlim = [], ylim = []\<rparr>"
      "''CLIP OFF''"
      "\<lparr>blockin = True, clip = False, x_acc = [], y_acc = [], xblock = Some [], yblock = Some [],
        xlab = [], ylab = [], xlim = [], ylim = []\<rparr>" 3 4]
  by (simp add: load_defs line_defs float_defs first_token_is_def)

text \<open>
  C8. In a state the loop reaches, an \<open>XSCALE\<close> line of at least three tokens whose
  second and third tokens are floats appends the two values to \<open>xlim\<close>, and a \<open>YSCALE\<close>
  line to \<open>ylim\<close>. The limit lists a call returns are the floats of the second and third
  tokens of all such lines, in order: nothing is overwritten or cut. The instance reads
  \<open>XSCALE 0 100\<close> and \<open>YSCALE -5 5\<close>, and a second \<open>XSCALE\<close> line on top of a first.
\<close>

theorem scale_limits_accumulate:
  "(state_ok st \<and> tokens l = a0 # a1 # a2 # r \<and> flt a1 = Some v1 \<and> flt a2 = Some v2 \<longrightarrow>
      (a0 = ''XSCALE'' \<longrightarrow>
         (\<exists>st'. process_line flt st l = Inr st' \<and> xlim st' = xlim st @ [v1, v2] \<and>
                ylim st' = ylim st)) \<and>
      (a0 = ''YSCALE'' \<longrightarrow>
         (\<exists>st'. process_line flt st l = Inr st' \<and> ylim st' = ylim st @ [v1, v2] \<and>
                xlim st' = xlim st))) \<and>
   (load_exp_datafile flt lines blocks = Inr (cx, cy, xl, yl, xm, ym) \<longrightarrow>
      map Some xm = map flt (scale_tokens ''XSCALE'' lines) \<and>
      map Some ym = map flt (scale_tokens ''YSCALE'' lines))"
proof (intro conjI impI)
  assume a: "state_ok st \<and> tokens l = a0 # a1 # a2 # r \<and> flt a1 = Some v1 \<and> flt a2 = Some v2"
  {
    assume "a0 = ''XSCALE''"
    with a show "\<exists>st'. process_line flt st l = Inr st' \<and> xlim st' = xlim st @ [v1, v2] \<and>
                ylim st' = ylim st"
      using scale_line_appends(1) [of st l a0 a1 a2 r flt v1 v2] by simp
  }
  {
    assume "a0 = ''YSCALE''"
    with a show "\<exists>st'. process_line flt st l = Inr st' \<and> ylim st' = ylim st @ [v1, v2] \<and>
                xlim st' = xlim st"
      using scale_line_appends(2) [of st l a0 a1 a2 r flt v1 v2] by simp
  }
next
  assume "load_exp_datafile flt lines blocks = Inr (cx, cy, xl, yl, xm, ym)"
  then obtain st where r: "run flt init_state lines = Inr st"
    and f: "finish blocks st = (cx, cy, xl, yl, xm, ym)"
    by (auto simp: load_exp_datafile_def bind_res_eq_Inr)
  from f have "xm = xlim st" "ym = ylim st"
    by (auto simp: finish_def Let_def split: if_splits prod.splits)
  with run_lims [OF r]
  show "map Some xm = map flt (scale_tokens ''XSCALE'' lines)"
    and "map Some ym = map flt (scale_tokens ''YSCALE'' lines)"
    by (simp_all add: init_state_def)
qed

theorem scale_limits_accumulate_witness:
  "load_exp_datafile py_float (text_lines [''XSCALE 0 100'', ''YSCALE -5 5'']) False =
     Inr (Flat [], Flat [], [], [], [0, 100], [-5, 5]) \<and>
   map Some [0, 100] = map py_float [''0'', ''100''] \<and>
   map Some [-5, 5] = map py_float [''-5'', ''5''] \<and>
   (\<exists>st'. process_line py_float
       \<lparr>blockin = True, clip = False, x_acc = [], y_acc = [], xblock = Some [], yblock = Some [],
        xlab = [], ylab = [], xlim = [0, 100], ylim = []\<rparr> ''XSCALE 1 2'' = Inr st' \<and>
      xlim st' = [0, 100, 1, 2] \<and> ylim st' = [])"
  using scale_limits_accumulate [of
      "\<lparr>blockin = True, clip = False, x_acc = [], y_acc = [], xblock = Some [], yblock = Some [],
        xlab = [], ylab = [], xlim = [0, 100], ylim = []\<rparr>"
      "''XSCALE 1 2''" "''XSCALE''" "''1''" "''2''" "[]" py_float 1 2
      "text_lines [''XSCALE 0 100'', ''YSCALE -5 5'']" False
      "Flat []" "Flat []" "[]" "[]" "[0, 100]" "[-5, 5]"]
  by (simp add: load_defs line_defs float_defs state_ok_def scale_tokens_def)

text \<open>
  C9. After any stream that is read without error (every prefix of a stream is one),
  the list of sealed x-sequences and the list of sealed y-sequences have the same
  length, the number of \<open>BLOCKEND\<close> lines read; these two lists are what the call
  returns with \<open>blocks\<close> true.
\<close>

theorem sealed_lists_equal_length:
  assumes "run flt init_state lines = Inr st"
  shows "length (x_acc st) = blockend_count lines \<and> length (y_acc st) = blockend_count lines \<and>
     load_exp_datafile flt lines True =
       Inr (Blocks (x_acc st), Blocks (y_acc st), xlab st, ylab st, xlim st, ylim st)"
  using run_sealed_count [OF assms] assms
  by (simp add: load_exp_datafile_def finish_def init_state_def)

theorem sealed_lists_equal_length_witness:
  "\<exists>st. run py_float init_state (text_lines [''BLOCK'', ''1.0 abc'', ''BLOCKEND'']) = Inr st \<and>
     length (x_acc st) = 1 \<and> length (y_acc st) = 1 \<and>
     load_exp_datafile py_float (text_lines [''BLOCK'', ''1.0 abc'', ''BLOCKEND'']) True =
       Inr (Blocks (x_acc st), Blocks (y_acc st), xlab st, ylab st, xlim st, ylim st)"
proof -
  have r: "run py_float init_state (text_lines [''BLOCK'', ''1.0 abc'', ''BLOCKEND'']) =
     Inr \<lparr>blockin = False, clip = True, x_acc = [[Some 1]], y_acc = [[]],
          xblock = Some [Some 1], yblock = Some [], xlab = [], ylab = [], xlim = [],
          ylim = []\<rparr>"
    by (simp add: init_state_def line_defs float_defs)
  have c: "blockend_count (text_lines [''BLOCK'', ''1.0 abc'', ''BLOCKEND'']) = 1"
    by (simp add: blockend_count_def text_lines_def first_token_is_def tokens_def py_split_def
        strip_def is_space_def)
  from sealed_lists_equal_length [OF r] show ?thesis
    unfolding c by (intro exI conjI) (rule r, simp_all)
qed

text \<open>
  C10. In every state the loop reaches, whatever \<open>blockin\<close> and \<open>clip\<close> are, an \<open>XTEXT\<close>
  or \<open>YTEXT\<close> line of at least two tokens sets the label to its remaining tokens joined
  by spaces, \<open>CLIP ON\<close> and \<open>CLIP OFF\<close> set the flag, and an \<open>XSCALE\<close> or \<open>YSCALE\<close> line
  whose second and third tokens are floats appends them to its limit list.
\<close>

theorem metadata_in_every_state:
  "state_ok st \<and> tokens l = a0 # a1 # r \<longrightarrow>
     (a0 = ''XTEXT'' \<longrightarrow>
        (\<exists>st'. process_line flt st l = Inr st' \<and> xlab st' = str_join (a1 # r))) \<and>
     (a0 = ''YTEXT'' \<longrightarrow>
        (\<exists>st'. process_line flt st l = Inr st' \<and> ylab st' = str_join (a1 # r))) \<and>
     (a0 = ''CLIP'' \<and> a1 = ''ON'' \<longrightarrow> (\<exists>st'. process_line flt st l = Inr st' \<and> clip st')) \<and>
     (a0 = ''CLIP'' \<and> a1 = ''OFF'' \<longrightarrow> (\<exists>st'. process_line flt st l = Inr st' \<and> \<not> clip st')) \<and>
     (a0 = ''XSCALE'' \<and> r = a2 # r' \<and> flt a1 = Some v1 \<and> flt a2 = Some v2 \<longrightarrow>
        (\<exists>st'. process_line flt st l = Inr st' \<and> xlim st' = xlim st @ [v1, v2])) \<and>
     (a0 = ''YSCALE'' \<and> r = a2 # r' \<and> flt a1 = Some v1 \<and> flt a2 = Some v2 \<longrightarrow>
        (\<exists>st'. process_line flt st l = Inr st' \<and> ylim st' = ylim st @ [v1, v2]))"
proof (intro impI)
  assume a: "state_ok st \<and> tokens l = a0 # a1 # r"
  then have ok: "state_ok st" and t: "tokens l = a0 # a1 # r" by simp_all
  have 1: "a0 = ''XTEXT'' \<longrightarrow>
        (\<exists>st'. process_line flt st l = Inr st' \<and> xlab st' = str_join (a1 # r))"
    using process_line_meta [OF ok t, of flt] by auto
  have 2: "a0 = ''YTEXT'' \<longrightarrow>
        (\<exists>st'. process_line flt st l = Inr st' \<and> ylab st' = str_join (a1 # r))"
    using process_line_meta [OF ok t, of flt] by auto
  have 3: "a0 = ''CLIP'' \<and> a1 = ''ON'' \<longrightarrow> (\<exists>st'. process_line flt st l = Inr st' \<and> clip st')"
    using process_line_meta [OF ok t, of flt] by auto
  have 4: "a0 = ''CLIP'' \<and> a1 = ''OFF'' \<longrightarrow>
        (\<exists>st'. process_line flt st l = Inr st' \<and> \<not> clip st')"
    using process_line_meta [OF ok t, of flt] by auto
  have 5: "a0 = ''XSCALE'' \<and> r = a2 # r' \<and> flt a1 = Some v1 \<and> flt a2 = Some v2 \<longrightarrow>
        (\<exists>st'. process_line flt st l = Inr st' \<and> xlim st' = xlim st @ [v1, v2])"
    using scale_line_appends(1) [of st l a0 a1 a2 r' flt v1 v2] ok t by auto
  have 6: "a0 = ''YSCALE'' \<and> r = a2 # r' \<and> flt a1 = Some v1 \<and> flt a2 = Some v2 \<longrightarrow>
        (\<exists>st'. process_line flt st l = Inr st' \<and> ylim st' = ylim st @ [v1, v2])"
    using scale_line_appends(2) [of st l a0 a1 a2 r' flt v1 v2] ok t by auto
  from 1 2 3 4 5 6 show "(a0 = ''XTEXT'' \<longrightarrow>
        (\<exists>st'. process_line flt st l = Inr st' \<and> xlab st' = str_join (a1 # r))) \<and>
     (a0 = ''YTEXT'' \<longrightarrow>
        (\<exists>st'. process_line flt st l = Inr st' \<and> ylab st' = str_join (a1 # r))) \<and>
     (a0 = ''CLIP'' \<and> a1 = ''ON'' \<longrightarrow> (\<exists>st'. process_line flt st l = Inr st' \<and> clip st')) \<and>
     (a0 = ''CLIP'' \<and> a1 = ''OFF'' \<longrightarrow> (\<exists>st'. process_line flt st l = Inr st' \<and> \<not> clip st')) \<and>
     (a0 = ''XSCALE'' \<and> r = a2 # r' \<and> flt a1 = Some v1 \<and> flt a2 = Some v2 \<longrightarrow>
        (\<exists>st'. process_line flt st l = Inr st' \<and> xlim st' = xlim st @ [v1, v2])) \<and>
     (a0 = ''YSCALE'' \<and> r = a2 # r' \<and> flt a1 = Some v1 \<and> flt a2 = Some v2 \<longrightarrow>
        (\<exists>st'. process_line flt st l = Inr st' \<and> ylim st' = ylim st @ [v1, v2]))"
    by (intro conjI)
qed

theorem metadata_in_every_state_witness:
  "(\<exists>st'. process_line py_float
       \<lparr>blockin = True, clip = False, x_acc = [], y_acc = [], xblock = Some [], yblock = Some [],
        xlab = ''old'', ylab = [], xlim = [], ylim = []\<rparr> ''XTEXT Mole fraction'' = Inr st' \<and>
      xlab st' = ''Mole fraction'') \<and>
   (\<exists>st'. process_line py_float
       \<lparr>blockin = False, clip = False, x_acc = [], y_acc = [], xblock = None, yblock = None,
        xlab = [], ylab = [], xlim = [], ylim = []\<rparr> ''YSCALE -5 5'' = Inr st' \<and>
      ylim st' = [-5, 5])"
  using
    metadata_in_every_state [of
      "\<lparr>blockin = True, clip = False, x_acc = [], y_acc = [], xblock = Some [], yblock = Some [],
        xlab = ''old'', ylab = [], xlim = [], ylim = []\<rparr>"
      "''XTEXT Mole fraction''" "''XTEXT''" "''Mole''" "[''fraction'']" py_float]
    metadata_in_every_state [of
      "\<lparr>blockin = False, clip = False, x_acc = [], y_acc = [], xblock = None, yblock = None,
        xlab = [], ylab = [], xlim = [], ylim = []\<rparr>"
      "''YSCALE -5 5''" "''YSCALE''" "''-5''" "[''5'']" py_float "''5''" "[]" "-5" 5]
  by (simp add: tokens_def py_split_def strip_def is_space_def state_ok_def float_defs)

end
